theory Spec2Isabelle
  imports Main "HOL-Library.Word"
begin

section \<open>The Jaeger bridge: Thrift spans to the v1 model\<close>

text \<open>
  A shallow embedding of \<^verbatim>\<open>pkg/jaeger/bridge.go\<close>: the converters
  \<^verbatim>\<open>convertTag\<close>, \<^verbatim>\<open>convertTags\<close>, \<^verbatim>\<open>convertLogs\<close>,
  \<^verbatim>\<open>convertSpanRef\<close>, \<^verbatim>\<open>convertSpan\<close>, \<^verbatim>\<open>convertProcess\<close> and the HTTP
  handler \<^verbatim>\<open>HandleTraces\<close>.

  Conventions of the embedding.
  \<^item> Go's fixed-width integers are words. \<^verbatim>\<open>int64\<close> and \<^verbatim>\<open>uint64\<close> are both
    64-bit words; the signedness of a Go type is the function that reads the word
    (\<open>sint\<close> for \<^verbatim>\<open>int64\<close>, \<open>uint\<close> for \<^verbatim>\<open>uint64\<close>). Arithmetic on words wraps
    around, as Go's does.
  \<^item> A Go slice is \<open>'a list option\<close>: \<open>None\<close> is the \<^verbatim>\<open>nil\<close> slice and \<open>Some []\<close> an
    allocated slice of length 0.
  \<^item> A pointer that the source tests against \<^verbatim>\<open>nil\<close>, stores or returns is an
    \<open>option\<close>. The elements of \<^verbatim>\<open>[]*jaegerthrift.Tag\<close>, \<^verbatim>\<open>[]*jaegerthrift.Log\<close>,
    \<^verbatim>\<open>[]*jaegerthrift.SpanRef\<close> and \<^verbatim>\<open>[]*jaegerthrift.Span\<close>, and the pointer
    arguments of \<^verbatim>\<open>convertTag\<close>, \<^verbatim>\<open>convertSpanRef\<close> and \<^verbatim>\<open>convertSpan\<close>, are
    dereferenced by the source without a test; the embedding takes the struct they point
    to, so it covers the calls with non-nil pointers (the only ones the Thrift decoder
    produces, which allocates every element it reads).
  \<^item> A \<^verbatim>\<open>float64\<close> is its IEEE 754 bit pattern: the source only copies it.
\<close>

subsection \<open>Go base types\<close>

type_synonym int64 = "64 word"
type_synonym uint64 = "64 word"
type_synonym int32 = "32 word"
type_synonym uint32 = "32 word"
type_synonym byte = "8 word"
type_synonym float64 = "64 word"
type_synonym 'a slice = "'a list option"

text \<open>\<^verbatim>\<open>len(s)\<close>: the \<^verbatim>\<open>nil\<close> slice has length 0.\<close>

definition len :: "'a slice \<Rightarrow> nat" where
  "len s = (case s of None \<Rightarrow> 0 | Some xs \<Rightarrow> length xs)"

text \<open>The elements a \<^verbatim>\<open>range\<close> loop visits, in order: none for the \<^verbatim>\<open>nil\<close> slice.\<close>

definition elems :: "'a slice \<Rightarrow> 'a list" where
  "elems s = (case s of None \<Rightarrow> [] | Some xs \<Rightarrow> xs)"

text \<open>\<^verbatim>\<open>append(s, x)\<close>: appending to the \<^verbatim>\<open>nil\<close> slice allocates.\<close>

definition append_slice :: "'a slice \<Rightarrow> 'a \<Rightarrow> 'a slice" where
  "append_slice s x = Some (elems s @ [x])"

text \<open>
  The conversions \<^verbatim>\<open>uint64(x)\<close> of an \<^verbatim>\<open>int64\<close> and \<^verbatim>\<open>uint32(x)\<close> of an
  \<^verbatim>\<open>int32\<close>, by the language specification: the signed value is extended to
  infinite precision and truncated to the width of the result.
\<close>

definition uint64_of_int64 :: "int64 \<Rightarrow> uint64" where
  "uint64_of_int64 x = word_of_int (sint x)"

definition uint32_of_int32 :: "int32 \<Rightarrow> uint32" where
  "uint32_of_int32 x = word_of_int (sint x)"

subsection \<open>Package time\<close>

text \<open>
  A \<^verbatim>\<open>time.Time\<close> is the instant it denotes, in nanoseconds since the Unix epoch
  (an unbounded integer: the type holds any \<^verbatim>\<open>int64\<close> count of nanoseconds).
  \<^verbatim>\<open>time.Unix(sec, nsec)\<close> is the instant \<^verbatim>\<open>sec\<close> seconds and \<^verbatim>\<open>nsec\<close>
  nanoseconds after the epoch, for any \<^verbatim>\<open>nsec\<close>. A \<^verbatim>\<open>time.Duration\<close> is an
  \<^verbatim>\<open>int64\<close> count of nanoseconds and \<^verbatim>\<open>time.Microsecond\<close> is the duration 1000.
\<close>

datatype time_Time = UnixNano (nanos: int)

type_synonym time_Duration = int64

definition time_Microsecond :: time_Duration where
  "time_Microsecond = 1000"

definition time_Unix :: "int64 \<Rightarrow> int64 \<Rightarrow> time_Time" where
  "time_Unix sec nsec = UnixNano (sint sec * 1000000000 + sint nsec)"

subsection \<open>The Thrift structures (package jaegerthrift)\<close>

text \<open>
  \<^verbatim>\<open>TagType\<close> and \<^verbatim>\<open>SpanRefType\<close> are \<^verbatim>\<open>int64\<close> types with named constants; a
  decoded value can be any \<^verbatim>\<open>int64\<close>. The constants have the values of the generated
  Thrift code.
\<close>

type_synonym jaegerthrift_TagType = int64

definition jaegerthrift_TagType_STRING :: jaegerthrift_TagType where
  "jaegerthrift_TagType_STRING = 0"

definition jaegerthrift_TagType_DOUBLE :: jaegerthrift_TagType where
  "jaegerthrift_TagType_DOUBLE = 1"

definition jaegerthrift_TagType_BOOL :: jaegerthrift_TagType where
  "jaegerthrift_TagType_BOOL = 2"

definition jaegerthrift_TagType_LONG :: jaegerthrift_TagType where
  "jaegerthrift_TagType_LONG = 3"

definition jaegerthrift_TagType_BINARY :: jaegerthrift_TagType where
  "jaegerthrift_TagType_BINARY = 4"

type_synonym jaegerthrift_SpanRefType = int64

definition jaegerthrift_SpanRefType_CHILD_OF :: jaegerthrift_SpanRefType where
  "jaegerthrift_SpanRefType_CHILD_OF = 0"

definition jaegerthrift_SpanRefType_FOLLOWS_FROM :: jaegerthrift_SpanRefType where
  "jaegerthrift_SpanRefType_FOLLOWS_FROM = 1"

record jaegerthrift_Tag =
  Tag_Key :: string
  Tag_VType :: jaegerthrift_TagType
  Tag_VStr :: "string option"
  Tag_VDouble :: "float64 option"
  Tag_VBool :: "bool option"
  Tag_VLong :: "int64 option"
  Tag_VBinary :: "byte slice"

record jaegerthrift_Log =
  Log_Timestamp :: int64
  Log_Fields :: "jaegerthrift_Tag slice"

record jaegerthrift_SpanRef =
  SpanRef_RefType :: jaegerthrift_SpanRefType
  SpanRef_TraceIdLow :: int64
  SpanRef_TraceIdHigh :: int64
  SpanRef_SpanId :: int64

record jaegerthrift_Span =
  Span_TraceIdLow :: int64
  Span_TraceIdHigh :: int64
  Span_SpanId :: int64
  Span_ParentSpanId :: int64
  Span_OperationName :: string
  Span_References :: "jaegerthrift_SpanRef slice"
  Span_Flags :: int32
  Span_StartTime :: int64
  Span_Duration :: int64
  Span_Tags :: "jaegerthrift_Tag slice"
  Span_Logs :: "jaegerthrift_Log slice"

record jaegerthrift_Process =
  Process_ServiceName :: string
  Process_Tags :: "jaegerthrift_Tag slice"

text \<open>Of a \<^verbatim>\<open>jaegerthrift.Batch\<close> the bridge reads the process and the spans.\<close>

record jaegerthrift_Batch =
  Batch_Process :: "jaegerthrift_Process option"
  Batch_Spans :: "jaegerthrift_Span slice"

subsection \<open>The canonical structures (package v1)\<close>

datatype v1_ValueType =
  v1_ValueType_STRING | v1_ValueType_BOOL | v1_ValueType_INT64
  | v1_ValueType_FLOAT64 | v1_ValueType_BINARY

datatype v1_SpanRefType = v1_SpanRefType_CHILD_OF | v1_SpanRefType_FOLLOWS_FROM

type_synonym v1_SpanID = uint64
type_synonym v1_Flags = uint32

record v1_TraceID =
  TraceID_Low :: uint64
  TraceID_High :: uint64

record v1_KeyValue =
  KeyValue_Key :: string
  KeyValue_VType :: v1_ValueType
  KeyValue_VStr :: string
  KeyValue_VBool :: bool
  KeyValue_VInt64 :: int64
  KeyValue_VFloat64 :: float64
  KeyValue_VBinary :: "byte slice"

record v1_Log =
  v1_Log_Timestamp :: time_Time
  v1_Log_Fields :: "v1_KeyValue slice"

record v1_SpanRef =
  v1_SpanRef_TraceID :: v1_TraceID
  v1_SpanRef_SpanID :: v1_SpanID
  v1_SpanRef_RefType :: v1_SpanRefType

record v1_Process =
  v1_Process_ServiceName :: string
  v1_Process_Tags :: "v1_KeyValue slice"

record v1_Span =
  v1_Span_TraceID :: v1_TraceID
  v1_Span_SpanID :: v1_SpanID
  v1_Span_OperationName :: string
  v1_Span_References :: "v1_SpanRef slice"
  v1_Span_Flags :: v1_Flags
  v1_Span_StartTime :: time_Time
  v1_Span_Duration :: time_Duration
  v1_Span_Tags :: "v1_KeyValue slice"
  v1_Span_Logs :: "v1_Log slice"
  v1_Span_Process :: "v1_Process option"

text \<open>The zero values of the structures that the source builds field by field.\<close>

definition zero_KeyValue :: v1_KeyValue where
  "zero_KeyValue =
     \<lparr>KeyValue_Key = [], KeyValue_VType = v1_ValueType_STRING, KeyValue_VStr = [],
      KeyValue_VBool = False, KeyValue_VInt64 = 0, KeyValue_VFloat64 = 0,
      KeyValue_VBinary = None\<rparr>"

definition zero_Process :: v1_Process where
  "zero_Process = \<lparr>v1_Process_ServiceName = [], v1_Process_Tags = None\<rparr>"

subsection \<open>convertTag\<close>

text \<open>
  The \<^verbatim>\<open>switch\<close> on \<^verbatim>\<open>t.VType\<close>, its cases tried in the order of the source, with the
  \<^verbatim>\<open>default\<close> last. Each optional payload is read only when its pointer is not nil.
\<close>

definition convertTag :: "jaegerthrift_Tag \<Rightarrow> v1_KeyValue" where
  "convertTag t =
    (let kv = zero_KeyValue\<lparr>KeyValue_Key := Tag_Key t\<rparr> in
     if Tag_VType t = jaegerthrift_TagType_BOOL then
       (let kv = kv\<lparr>KeyValue_VType := v1_ValueType_BOOL\<rparr> in
        case Tag_VBool t of Some b \<Rightarrow> kv\<lparr>KeyValue_VBool := b\<rparr> | None \<Rightarrow> kv)
     else if Tag_VType t = jaegerthrift_TagType_LONG then
       (let kv = kv\<lparr>KeyValue_VType := v1_ValueType_INT64\<rparr> in
        case Tag_VLong t of Some n \<Rightarrow> kv\<lparr>KeyValue_VInt64 := n\<rparr> | None \<Rightarrow> kv)
     else if Tag_VType t = jaegerthrift_TagType_DOUBLE then
       (let kv = kv\<lparr>KeyValue_VType := v1_ValueType_FLOAT64\<rparr> in
        case Tag_VDouble t of Some d \<Rightarrow> kv\<lparr>KeyValue_VFloat64 := d\<rparr> | None \<Rightarrow> kv)
     else if Tag_VType t = jaegerthrift_TagType_BINARY then
       kv\<lparr>KeyValue_VType := v1_ValueType_BINARY, KeyValue_VBinary := Tag_VBinary t\<rparr>
     else
       (let kv = kv\<lparr>KeyValue_VType := v1_ValueType_STRING\<rparr> in
        case Tag_VStr t of Some s \<Rightarrow> kv\<lparr>KeyValue_VStr := s\<rparr> | None \<Rightarrow> kv))"

subsection \<open>convertSpanRef\<close>

definition convertSpanRef :: "jaegerthrift_SpanRef \<Rightarrow> v1_SpanRef" where
  "convertSpanRef r =
    (let refType = v1_SpanRefType_CHILD_OF;
         refType = (if SpanRef_RefType r = jaegerthrift_SpanRefType_FOLLOWS_FROM
                    then v1_SpanRefType_FOLLOWS_FROM else refType)
     in \<lparr>v1_SpanRef_TraceID =
            \<lparr>TraceID_Low = uint64_of_int64 (SpanRef_TraceIdLow r),
             TraceID_High = uint64_of_int64 (SpanRef_TraceIdHigh r)\<rparr>,
          v1_SpanRef_SpanID = uint64_of_int64 (SpanRef_SpanId r),
          v1_SpanRef_RefType = refType\<rparr>)"

subsection \<open>convertTags and convertLogs\<close>

text \<open>
  \<^verbatim>\<open>out := make([]v1.KeyValue, len(tags))\<close> is a slice of zero values, and the
  \<^verbatim>\<open>range\<close> loop stores the image of element \<open>i\<close> at index \<open>i\<close>. The loop functions
  carry the index, the elements still to visit and the output built so far.
\<close>

fun convertTags_loop ::
  "nat \<Rightarrow> jaegerthrift_Tag list \<Rightarrow> v1_KeyValue list \<Rightarrow> v1_KeyValue list" where
  "convertTags_loop i [] out = out"
| "convertTags_loop i (t # ts) out = convertTags_loop (Suc i) ts (out[i := convertTag t])"

definition convertTags :: "jaegerthrift_Tag slice \<Rightarrow> v1_KeyValue slice" where
  "convertTags tags =
    (if len tags = 0 then None
     else Some (convertTags_loop 0 (elems tags) (replicate (len tags) zero_KeyValue)))"

text \<open>The zero \<^verbatim>\<open>time.Time\<close> is January 1 of year 1, before the Unix epoch.\<close>

definition zero_Time :: time_Time where
  "zero_Time = UnixNano (- 62135596800000000000)"

definition zero_Log :: v1_Log where
  "zero_Log = \<lparr>v1_Log_Timestamp = zero_Time, v1_Log_Fields = None\<rparr>"

fun convertLogs_loop ::
  "nat \<Rightarrow> jaegerthrift_Log list \<Rightarrow> v1_Log list \<Rightarrow> v1_Log list" where
  "convertLogs_loop i [] out = out"
| "convertLogs_loop i (l # ls) out =
     convertLogs_loop (Suc i) ls
       (out[i := \<lparr>v1_Log_Timestamp = time_Unix 0 (Log_Timestamp l * time_Microsecond),
                  v1_Log_Fields = convertTags (Log_Fields l)\<rparr>])"

definition convertLogs :: "jaegerthrift_Log slice \<Rightarrow> v1_Log slice" where
  "convertLogs logs =
    (if len logs = 0 then None
     else Some (convertLogs_loop 0 (elems logs) (replicate (len logs) zero_Log)))"

subsection \<open>convertSpan\<close>

text \<open>
  The first loop of \<^verbatim>\<open>convertSpan\<close> appends the image of every explicit reference to
  \<^verbatim>\<open>refs\<close>, which starts as the \<^verbatim>\<open>nil\<close> slice.
\<close>

fun convertSpan_refs ::
  "v1_SpanRef slice \<Rightarrow> jaegerthrift_SpanRef list \<Rightarrow> v1_SpanRef slice" where
  "convertSpan_refs refs [] = refs"
| "convertSpan_refs refs (r # rs) = convertSpan_refs (append_slice refs (convertSpanRef r)) rs"

text \<open>
  The second loop sets the flag \<^verbatim>\<open>alreadyPresent\<close> and breaks at the first reference
  of type \<^verbatim>\<open>CHILD_OF\<close> whose span id is the parent's; the function is the final value
  of the flag.
\<close>

fun alreadyPresent :: "v1_SpanID \<Rightarrow> v1_SpanRef list \<Rightarrow> bool" where
  "alreadyPresent parent [] = False"
| "alreadyPresent parent (ref # refs) =
     (if v1_SpanRef_RefType ref = v1_SpanRefType_CHILD_OF \<and> v1_SpanRef_SpanID ref = parent
      then True else alreadyPresent parent refs)"

text \<open>
  The result is the pointer to a new \<^verbatim>\<open>v1.Span\<close>, whose \<^verbatim>\<open>Process\<close> field the
  function leaves nil.
\<close>

definition convertSpan :: "jaegerthrift_Span \<Rightarrow> v1_Span option" where
  "convertSpan s =
    (let traceID = \<lparr>TraceID_Low = uint64_of_int64 (Span_TraceIdLow s),
                    TraceID_High = uint64_of_int64 (Span_TraceIdHigh s)\<rparr>;
         refs = convertSpan_refs None (elems (Span_References s));
         refs =
           (if Span_ParentSpanId s \<noteq> 0 then
              (if \<not> alreadyPresent (uint64_of_int64 (Span_ParentSpanId s)) (elems refs)
               then append_slice refs
                      \<lparr>v1_SpanRef_TraceID = traceID,
                       v1_SpanRef_SpanID = uint64_of_int64 (Span_ParentSpanId s),
                       v1_SpanRef_RefType = v1_SpanRefType_CHILD_OF\<rparr>
               else refs)
            else refs)
     in Some \<lparr>v1_Span_TraceID = traceID,
              v1_Span_SpanID = uint64_of_int64 (Span_SpanId s),
              v1_Span_OperationName = Span_OperationName s,
              v1_Span_References = refs,
              v1_Span_Flags = uint32_of_int32 (Span_Flags s),
              v1_Span_StartTime = time_Unix 0 (Span_StartTime s * time_Microsecond),
              v1_Span_Duration = Span_Duration s * time_Microsecond,
              v1_Span_Tags = convertTags (Span_Tags s),
              v1_Span_Logs = convertLogs (Span_Logs s),
              v1_Span_Process = None\<rparr>)"

subsection \<open>convertProcess\<close>

definition convertProcess :: "jaegerthrift_Process option \<Rightarrow> v1_Process option" where
  "convertProcess p =
    (case p of
       None \<Rightarrow> Some zero_Process
     | Some p \<Rightarrow>
         Some \<lparr>v1_Process_ServiceName = Process_ServiceName p,
               v1_Process_Tags = convertTags (Process_Tags p)\<rparr>)"

subsection \<open>HandleTraces\<close>

text \<open>
  The handler's surroundings. A request is its method and what \<^verbatim>\<open>io.ReadAll(r.Body)\<close>
  and \<^verbatim>\<open>r.Body.Close()\<close> return. The response writer records the status codes passed
  to \<^verbatim>\<open>WriteHeader\<close>, in order. The Thrift decoder (\<^verbatim>\<open>batch.Read\<close> on the bytes of
  the body) and the collector client (\<^verbatim>\<open>client.PostSpans\<close>) are parameters of the
  handler. The lines the handler logs are left out; an error of \<^verbatim>\<open>Close\<close> is only
  logged, so the handler does not depend on it.
\<close>

datatype error = Error string

record http_Request =
  Request_Method :: string
  Request_Body_ReadAll :: "byte list \<times> error option"
  Request_Body_Close :: "error option"

record http_ResponseWriter =
  statuses :: "nat list"

definition WriteHeader :: "http_ResponseWriter \<Rightarrow> nat \<Rightarrow> http_ResponseWriter" where
  "WriteHeader w code = w\<lparr>statuses := statuses w @ [code]\<rparr>"

definition http_MethodPost :: string where
  "http_MethodPost = ''POST''"

definition http_StatusAccepted :: nat where
  "http_StatusAccepted = 202"

definition http_StatusBadRequest :: nat where
  "http_StatusBadRequest = 400"

definition http_StatusMethodNotAllowed :: nat where
  "http_StatusMethodNotAllowed = 405"

definition http_StatusInternalServerError :: nat where
  "http_StatusInternalServerError = 500"

text \<open>
  \<^verbatim>\<open>transport.Write(data)\<close> on a new \<^verbatim>\<open>thrift.TMemoryBuffer\<close> is the \<^verbatim>\<open>Write\<close> of the
  \<^verbatim>\<open>bytes.Buffer\<close> inside it, whose error is always nil.
\<close>

definition TMemoryBuffer_Write :: "byte list \<Rightarrow> error option" where
  "TMemoryBuffer_Write data = None"

record v1_Batch =
  v1_Batch_Spans :: "v1_Span option slice"
  v1_Batch_Process :: "v1_Process option"

record api_v2_PostSpansRequest =
  PostSpansRequest_Batch :: v1_Batch

text \<open>
  The loop over \<^verbatim>\<open>batch.Spans\<close>: every converted span gets the shared process and is
  appended to \<^verbatim>\<open>spans\<close>. Storing into the field of a nil span would panic, which is
  the result \<open>None\<close>.
\<close>

fun HandleTraces_spans ::
  "v1_Process option \<Rightarrow> v1_Span option slice \<Rightarrow> jaegerthrift_Span list
    \<Rightarrow> v1_Span option slice option" where
  "HandleTraces_spans proc spans [] = Some spans"
| "HandleTraces_spans proc spans (s # ss) =
     (case convertSpan s of
        None \<Rightarrow> None
      | Some span \<Rightarrow>
          HandleTraces_spans proc
            (append_slice spans (Some (span\<lparr>v1_Span_Process := proc\<rparr>))) ss)"

text \<open>
  The request the handler builds from a decoded batch: \<^verbatim>\<open>spans\<close> starts as an
  allocated slice of length 0.
\<close>

definition HandleTraces_request ::
  "jaegerthrift_Batch \<Rightarrow> api_v2_PostSpansRequest option" where
  "HandleTraces_request batch =
    (let proc = convertProcess (Batch_Process batch) in
     case HandleTraces_spans proc (Some []) (elems (Batch_Spans batch)) of
       None \<Rightarrow> None
     | Some spans \<Rightarrow>
         Some \<lparr>PostSpansRequest_Batch =
                 \<lparr>v1_Batch_Spans = spans, v1_Batch_Process = proc\<rparr>\<rparr>)"

text \<open>
  The handler, from the request and the response writer to the response writer it
  leaves; \<open>None\<close> is a panic.
\<close>

definition HandleTraces ::
  "(api_v2_PostSpansRequest \<Rightarrow> error option) \<Rightarrow> (byte list \<Rightarrow> error + jaegerthrift_Batch)
    \<Rightarrow> http_ResponseWriter \<Rightarrow> http_Request \<Rightarrow> http_ResponseWriter option" where
  "HandleTraces client_PostSpans batch_Read w r =
    (if Request_Method r \<noteq> http_MethodPost then
       Some (WriteHeader w http_StatusMethodNotAllowed)
     else
       (case Request_Body_ReadAll r of
          (data, Some err) \<Rightarrow> Some (WriteHeader w http_StatusBadRequest)
        | (data, None) \<Rightarrow>
            if length data = 0 then Some (WriteHeader w http_StatusBadRequest)
            else
              (case TMemoryBuffer_Write data of
                 Some err \<Rightarrow> Some (WriteHeader w http_StatusBadRequest)
               | None \<Rightarrow>
                   (case batch_Read data of
                      Inl err \<Rightarrow> Some (WriteHeader w http_StatusBadRequest)
                    | Inr batch \<Rightarrow>
                        (case HandleTraces_request batch of
                           None \<Rightarrow> None
                         | Some req \<Rightarrow>
                             (case client_PostSpans req of
                                Some err \<Rightarrow>
                                  Some (WriteHeader w http_StatusInternalServerError)
                              | None \<Rightarrow> Some (WriteHeader w http_StatusAccepted)))))))"

section \<open>Vocabulary of the properties\<close>

text \<open>
  An unsigned 64-bit value \<open>y\<close> is the reinterpretation of a signed one \<open>x\<close>: the
  two have the same bits, and \<open>y\<close> reads as the value of \<open>x\<close> when that is not
  negative and as \<open>2\<^sup>6\<^sup>4\<close> more otherwise.
\<close>

definition reinterpreted :: "int64 \<Rightarrow> uint64 \<Rightarrow> bool" where
  "reinterpreted x y \<longleftrightarrow>
     (\<forall>n \<in> {..<64}. bit y n = bit x n)
     \<and> uint y = (if sint x < 0 then sint x + 2 ^ 64 else sint x)"

text \<open>
  The counts of microseconds whose thousandfold is an \<^verbatim>\<open>int64\<close>: those between
  \<open>- 9223372036854775\<close> and \<open>9223372036854775\<close>.
\<close>

definition nanos_fit :: "int64 \<Rightarrow> bool" where
  "nanos_fit v \<longleftrightarrow> - 9223372036854775 \<le> sint v \<and> sint v \<le> 9223372036854775"

subsection \<open>Example inputs\<close>

text \<open>
  The spans of the repository's tests and variations of them. As in a Go struct
  literal, the fields that are not set have their zero value.
\<close>

definition zero_Tag :: jaegerthrift_Tag where
  "zero_Tag =
     \<lparr>Tag_Key = [], Tag_VType = 0, Tag_VStr = None, Tag_VDouble = None, Tag_VBool = None,
      Tag_VLong = None, Tag_VBinary = None\<rparr>"

text \<open>
  The tags of \<^verbatim>\<open>TestConvertTag\<close>; the \<^verbatim>\<open>float64\<close> 3.14 is the bit pattern
  \<open>4614253070214989087\<close>.
\<close>

definition tag_string :: jaegerthrift_Tag where
  "tag_string =
     zero_Tag\<lparr>Tag_Key := ''k'', Tag_VType := jaegerthrift_TagType_STRING,
       Tag_VStr := Some ''v''\<rparr>"

definition tag_bool :: jaegerthrift_Tag where
  "tag_bool =
     zero_Tag\<lparr>Tag_Key := ''k'', Tag_VType := jaegerthrift_TagType_BOOL,
       Tag_VBool := Some True\<rparr>"

definition tag_long :: jaegerthrift_Tag where
  "tag_long =
     zero_Tag\<lparr>Tag_Key := ''k'', Tag_VType := jaegerthrift_TagType_LONG,
       Tag_VLong := Some 42\<rparr>"

definition tag_double :: jaegerthrift_Tag where
  "tag_double =
     zero_Tag\<lparr>Tag_Key := ''k'', Tag_VType := jaegerthrift_TagType_DOUBLE,
       Tag_VDouble := Some 4614253070214989087\<rparr>"

definition tag_binary :: jaegerthrift_Tag where
  "tag_binary =
     zero_Tag\<lparr>Tag_Key := ''k'', Tag_VType := jaegerthrift_TagType_BINARY,
       Tag_VBinary := Some [1, 2, 3]\<rparr>"

text \<open>
  A tag of every type whose own payload is unset while the string slot is set (for the
  type \<^verbatim>\<open>STRING\<close>: while the bool slot is set).
\<close>

definition tag_unset :: "jaegerthrift_TagType \<Rightarrow> jaegerthrift_Tag" where
  "tag_unset vtype =
     (if vtype = jaegerthrift_TagType_STRING
      then zero_Tag\<lparr>Tag_Key := ''k'', Tag_VType := vtype, Tag_VBool := Some True\<rparr>
      else zero_Tag\<lparr>Tag_Key := ''k'', Tag_VType := vtype, Tag_VStr := Some ''v''\<rparr>)"

text \<open>A tag whose discriminator is none of the five constants.\<close>

definition tag_unknown :: jaegerthrift_Tag where
  "tag_unknown =
     zero_Tag\<lparr>Tag_Key := ''k'', Tag_VType := 9, Tag_VStr := Some ''v'',
       Tag_VBool := Some True\<rparr>"

lemmas tag_defs =
  zero_Tag_def tag_string_def tag_bool_def tag_long_def tag_double_def tag_binary_def
  tag_unset_def tag_unknown_def

text \<open>
  The references of \<^verbatim>\<open>TestConvertSpan_ExplicitReferencesConvertedCorrectly\<close>, and
  references whose discriminator is not a constant of the enumeration.
\<close>

definition ref_child :: jaegerthrift_SpanRef where
  "ref_child =
     \<lparr>SpanRef_RefType = jaegerthrift_SpanRefType_CHILD_OF, SpanRef_TraceIdLow = 0x1,
      SpanRef_TraceIdHigh = 0x0, SpanRef_SpanId = 0x2\<rparr>"

definition ref_follows :: jaegerthrift_SpanRef where
  "ref_follows =
     \<lparr>SpanRef_RefType = jaegerthrift_SpanRefType_FOLLOWS_FROM, SpanRef_TraceIdLow = 0x10,
      SpanRef_TraceIdHigh = 0x0, SpanRef_SpanId = 0x20\<rparr>"

definition ref_unknown :: "jaegerthrift_SpanRefType \<Rightarrow> jaegerthrift_SpanRef" where
  "ref_unknown reftype = ref_child\<lparr>SpanRef_RefType := reftype\<rparr>"

text \<open>A reference whose identifiers are negative as \<^verbatim>\<open>int64\<close>.\<close>

definition ref_negative_ids :: jaegerthrift_SpanRef where
  "ref_negative_ids =
     \<lparr>SpanRef_RefType = jaegerthrift_SpanRefType_CHILD_OF, SpanRef_TraceIdLow = 1,
      SpanRef_TraceIdHigh = - 1, SpanRef_SpanId = - 3\<rparr>"

lemmas ref_defs = ref_child_def ref_follows_def ref_unknown_def ref_negative_ids_def

definition zero_Span :: jaegerthrift_Span where
  "zero_Span =
     \<lparr>Span_TraceIdLow = 0, Span_TraceIdHigh = 0, Span_SpanId = 0, Span_ParentSpanId = 0,
      Span_OperationName = [], Span_References = None, Span_Flags = 0, Span_StartTime = 0,
      Span_Duration = 0, Span_Tags = None, Span_Logs = None\<rparr>"

text \<open>\<^verbatim>\<open>TestConvertSpan_BasicFields\<close>, with a log added.\<close>

definition span_basic :: jaegerthrift_Span where
  "span_basic =
     zero_Span\<lparr>Span_TraceIdLow := 0x1234567890ABCDEF, Span_TraceIdHigh := 0x1122334455667788,
       Span_SpanId := 0x0102030405060708, Span_OperationName := ''op'', Span_Flags := 1,
       Span_StartTime := 1000000, Span_Duration := 500000,
       Span_Logs := Some [\<lparr>Log_Timestamp = 1000, Log_Fields = None\<rparr>]\<rparr>"

text \<open>\<^verbatim>\<open>TestConvertSpan_ParentSpanId_CreatesChildOfReference\<close>.\<close>

definition span_parent_only :: jaegerthrift_Span where
  "span_parent_only =
     zero_Span\<lparr>Span_TraceIdLow := 1, Span_TraceIdHigh := 0, Span_SpanId := 2,
       Span_ParentSpanId := 1, Span_StartTime := 0, Span_Duration := 100\<rparr>"

text \<open>\<^verbatim>\<open>TestConvertSpan_ExplicitReferencesConvertedCorrectly\<close>: no parent span id.\<close>

definition span_two_refs :: jaegerthrift_Span where
  "span_two_refs =
     zero_Span\<lparr>Span_TraceIdLow := 1, Span_TraceIdHigh := 0, Span_SpanId := 3,
       Span_References := Some [ref_child, ref_follows],
       Span_StartTime := 0, Span_Duration := 100\<rparr>"

text \<open>\<^verbatim>\<open>TestConvertSpan_ParentAlreadyInReferences_NoDuplicate\<close>.\<close>

definition span_parent_in_refs :: jaegerthrift_Span where
  "span_parent_in_refs =
     zero_Span\<lparr>Span_TraceIdLow := 1, Span_TraceIdHigh := 0, Span_SpanId := 3,
       Span_ParentSpanId := 2,
       Span_References := Some [ref_child], Span_StartTime := 0, Span_Duration := 100\<rparr>"

text \<open>The same span, its reference now to span 2 of another trace.\<close>

definition span_parent_in_other_trace :: jaegerthrift_Span where
  "span_parent_in_other_trace =
     span_parent_in_refs\<lparr>Span_References := Some
         [ref_child\<lparr>SpanRef_TraceIdLow := 153, SpanRef_TraceIdHigh := 7\<rparr>]\<rparr>"

text \<open>The same span, its reference to span 2 now of type \<^verbatim>\<open>FOLLOWS_FROM\<close>.\<close>

definition span_follows_parent :: jaegerthrift_Span where
  "span_follows_parent =
     span_parent_in_refs\<lparr>Span_References := Some
         [ref_child\<lparr>SpanRef_RefType := jaegerthrift_SpanRefType_FOLLOWS_FROM\<rparr>]\<rparr>"

text \<open>A span whose identifiers are negative as \<^verbatim>\<open>int64\<close>.\<close>

definition span_negative_ids :: jaegerthrift_Span where
  "span_negative_ids =
     zero_Span\<lparr>Span_TraceIdLow := - 9223372036854775808, Span_TraceIdHigh := - 1,
       Span_SpanId := - 2\<rparr>"

text \<open>A span whose times are \<open>9223372036854776\<close> microseconds, in the year 2262.\<close>

definition span_late :: jaegerthrift_Span where
  "span_late =
     zero_Span\<lparr>Span_TraceIdLow := 1, Span_SpanId := 2,
       Span_StartTime := 9223372036854776, Span_Duration := 9223372036854776,
       Span_Logs := Some [\<lparr>Log_Timestamp = 9223372036854776, Log_Fields = None\<rparr>]\<rparr>"

text \<open>A decoded batch: a process and the span of the second test.\<close>

definition batch_example :: jaegerthrift_Batch where
  "batch_example =
     \<lparr>Batch_Process = Some \<lparr>Process_ServiceName = ''svc'', Process_Tags = None\<rparr>,
      Batch_Spans = Some [span_parent_only]\<rparr>"

lemmas span_defs =
  ref_child_def ref_follows_def zero_Span_def span_basic_def span_parent_only_def
  span_two_refs_def span_parent_in_refs_def span_parent_in_other_trace_def
  span_follows_parent_def span_negative_ids_def span_late_def

section \<open>Properties\<close>

subsection \<open>Auxiliary facts\<close>

lemmas TagType_defs =
  jaegerthrift_TagType_STRING_def jaegerthrift_TagType_DOUBLE_def
  jaegerthrift_TagType_BOOL_def jaegerthrift_TagType_LONG_def
  jaegerthrift_TagType_BINARY_def

lemmas SpanRefType_defs =
  jaegerthrift_SpanRefType_CHILD_OF_def jaegerthrift_SpanRefType_FOLLOWS_FROM_def

lemma len_elems: "len s = length (elems s)"
  by (simp add: len_def elems_def split: option.split)

text \<open>
  The invariant of the loop of \<^verbatim>\<open>convertTags\<close>: when the loop is at index \<open>i\<close> with
  \<open>ts\<close> still to visit, it leaves the first \<open>i\<close> entries of \<open>out\<close> as they are and
  fills the rest with the images of \<open>ts\<close>.
\<close>

lemma convertTags_loop_eq:
  "length out = i + length ts \<Longrightarrow>
     convertTags_loop i ts out = take i out @ map convertTag ts"
proof (induction ts arbitrary: i out)
  case Nil
  then show ?case by simp
next
  case (Cons t ts)
  have i: "i < length out" using Cons.prems by simp
  have "convertTags_loop (Suc i) ts (out[i := convertTag t])
          = take (Suc i) (out[i := convertTag t]) @ map convertTag ts"
    using Cons.prems by (intro Cons.IH) simp
  also have "take (Suc i) (out[i := convertTag t]) = take i out @ [convertTag t]"
    using i by (simp add: take_Suc_conv_app_nth)
  finally show ?case by simp
qed

lemma convertTags_eq:
  "convertTags tags = (if elems tags = [] then None else Some (map convertTag (elems tags)))"
  by (simp add: convertTags_def len_elems convertTags_loop_eq)

lemma convertLogs_loop_eq:
  "length out = i + length ls \<Longrightarrow>
     convertLogs_loop i ls out = take i out @
       map (\<lambda>l. \<lparr>v1_Log_Timestamp = time_Unix 0 (Log_Timestamp l * time_Microsecond),
                  v1_Log_Fields = convertTags (Log_Fields l)\<rparr>) ls"
proof (induction ls arbitrary: i out)
  case Nil
  then show ?case by simp
next
  case (Cons l ls)
  let ?c = "\<lparr>v1_Log_Timestamp = time_Unix 0 (Log_Timestamp l * time_Microsecond),
             v1_Log_Fields = convertTags (Log_Fields l)\<rparr>"
  have i: "i < length out" using Cons.prems by simp
  have "take (Suc i) (out[i := ?c]) = take i out @ [?c]"
    using i by (simp add: take_Suc_conv_app_nth)
  moreover have "length (out[i := ?c]) = Suc i + length ls"
    using Cons.prems by simp
  ultimately show ?case
    using Cons.IH [of "out[i := ?c]" "Suc i"] by simp
qed

lemma convertLogs_eq:
  "convertLogs logs =
     (if elems logs = [] then None
      else Some (map (\<lambda>l. \<lparr>v1_Log_Timestamp =
                              time_Unix 0 (Log_Timestamp l * time_Microsecond),
                            v1_Log_Fields = convertTags (Log_Fields l)\<rparr>) (elems logs)))"
  by (simp add: convertLogs_def len_elems convertLogs_loop_eq)

subsection \<open>Reference types\<close>

text \<open>
  Claim C3. For every legacy reference \<open>r\<close>, the converted reference has type
  \<^verbatim>\<open>FOLLOWS_FROM\<close> if and only if the discriminator of \<open>r\<close> is exactly
  \<^verbatim>\<open>FOLLOWS_FROM\<close>; every other discriminator, \<^verbatim>\<open>CHILD_OF\<close> and the values that
  are no constant of the enumeration among them, gives \<^verbatim>\<open>CHILD_OF\<close>.
\<close>

theorem convertSpanRef_RefType:
  "(v1_SpanRef_RefType (convertSpanRef r) = v1_SpanRefType_FOLLOWS_FROM
      \<longleftrightarrow> SpanRef_RefType r = jaegerthrift_SpanRefType_FOLLOWS_FROM)
   \<and> (SpanRef_RefType r \<noteq> jaegerthrift_SpanRefType_FOLLOWS_FROM
      \<longrightarrow> v1_SpanRef_RefType (convertSpanRef r) = v1_SpanRefType_CHILD_OF)"
  by (simp add: convertSpanRef_def)

theorem convertSpanRef_RefType_witness:
  "v1_SpanRef_RefType (convertSpanRef ref_follows) = v1_SpanRefType_FOLLOWS_FROM
   \<and> v1_SpanRef_RefType (convertSpanRef ref_child) = v1_SpanRefType_CHILD_OF
   \<and> v1_SpanRef_RefType (convertSpanRef (ref_unknown 7)) = v1_SpanRefType_CHILD_OF"
  using convertSpanRef_RefType [of ref_follows] convertSpanRef_RefType [of ref_child]
    convertSpanRef_RefType [of "ref_unknown 7"]
  by (simp add: ref_defs SpanRefType_defs)

text \<open>
  Claim C4 says that a discriminator that is neither \<^verbatim>\<open>CHILD_OF\<close> nor
  \<^verbatim>\<open>FOLLOWS_FROM\<close> is converted to \<^verbatim>\<open>FOLLOWS_FROM\<close>. The source starts from
  \<^verbatim>\<open>CHILD_OF\<close> and changes it only for \<^verbatim>\<open>FOLLOWS_FROM\<close>: the discriminator 2 is
  converted to \<^verbatim>\<open>CHILD_OF\<close>.
\<close>

theorem convertSpanRef_unknown_counterexample:
  "SpanRef_RefType (ref_unknown 2) \<noteq> jaegerthrift_SpanRefType_CHILD_OF
   \<and> SpanRef_RefType (ref_unknown 2) \<noteq> jaegerthrift_SpanRefType_FOLLOWS_FROM
   \<and> v1_SpanRef_RefType (convertSpanRef (ref_unknown 2)) \<noteq> v1_SpanRefType_FOLLOWS_FROM
   \<and> v1_SpanRef_RefType (convertSpanRef (ref_unknown 2)) = v1_SpanRefType_CHILD_OF"
  by (simp add: convertSpanRef_def ref_defs SpanRefType_defs)

text \<open>
  Claim C4, amended. For every legacy reference whose discriminator is neither
  \<^verbatim>\<open>CHILD_OF\<close> nor \<^verbatim>\<open>FOLLOWS_FROM\<close>, the converted reference has type
  \<^verbatim>\<open>CHILD_OF\<close>.
\<close>

theorem convertSpanRef_unknown:
  assumes "SpanRef_RefType r \<noteq> jaegerthrift_SpanRefType_CHILD_OF"
    and "SpanRef_RefType r \<noteq> jaegerthrift_SpanRefType_FOLLOWS_FROM"
  shows "v1_SpanRef_RefType (convertSpanRef r) = v1_SpanRefType_CHILD_OF"
  using assms(2) by (simp add: convertSpanRef_def)

theorem convertSpanRef_unknown_witness:
  "v1_SpanRef_RefType (convertSpanRef (ref_unknown (- 1))) = v1_SpanRefType_CHILD_OF"
  by (rule convertSpanRef_unknown) (simp_all add: ref_defs SpanRefType_defs)

subsection \<open>Tags\<close>

text \<open>
  Claim C5. For every legacy tag \<open>t\<close>, \<^verbatim>\<open>convertTag\<close> copies the key and chooses the
  type and the payload by the discriminator: \<^verbatim>\<open>BOOL\<close> gives \<^verbatim>\<open>BOOL\<close> with the bool
  payload (false when unset), \<^verbatim>\<open>LONG\<close> gives \<^verbatim>\<open>INT64\<close> with the integer payload (0
  when unset), \<^verbatim>\<open>DOUBLE\<close> gives \<^verbatim>\<open>FLOAT64\<close> with the float payload (0.0 when unset),
  \<^verbatim>\<open>BINARY\<close> gives \<^verbatim>\<open>BINARY\<close> with the byte slice as it is (nil stays nil), and
  \<^verbatim>\<open>STRING\<close> or any value that is none of the five constants gives \<^verbatim>\<open>STRING\<close> with
  the string payload (empty when unset). All other payload fields of the result have
  their zero value. The function has no failing case: one of the five equations applies
  to every tag.
\<close>

theorem convertTag_table:
  "KeyValue_Key (convertTag t) = Tag_Key t
   \<and> (Tag_VType t = jaegerthrift_TagType_BOOL \<longrightarrow>
        convertTag t =
          \<lparr>KeyValue_Key = Tag_Key t, KeyValue_VType = v1_ValueType_BOOL, KeyValue_VStr = [],
           KeyValue_VBool = (case Tag_VBool t of None \<Rightarrow> False | Some b \<Rightarrow> b),
           KeyValue_VInt64 = 0, KeyValue_VFloat64 = 0, KeyValue_VBinary = None\<rparr>)
   \<and> (Tag_VType t = jaegerthrift_TagType_LONG \<longrightarrow>
        convertTag t =
          \<lparr>KeyValue_Key = Tag_Key t, KeyValue_VType = v1_ValueType_INT64, KeyValue_VStr = [],
           KeyValue_VBool = False,
           KeyValue_VInt64 = (case Tag_VLong t of None \<Rightarrow> 0 | Some n \<Rightarrow> n),
           KeyValue_VFloat64 = 0, KeyValue_VBinary = None\<rparr>)
   \<and> (Tag_VType t = jaegerthrift_TagType_DOUBLE \<longrightarrow>
        convertTag t =
          \<lparr>KeyValue_Key = Tag_Key t, KeyValue_VType = v1_ValueType_FLOAT64,
           KeyValue_VStr = [], KeyValue_VBool = False, KeyValue_VInt64 = 0,
           KeyValue_VFloat64 = (case Tag_VDouble t of None \<Rightarrow> 0 | Some d \<Rightarrow> d),
           KeyValue_VBinary = None\<rparr>)
   \<and> (Tag_VType t = jaegerthrift_TagType_BINARY \<longrightarrow>
        convertTag t =
          \<lparr>KeyValue_Key = Tag_Key t, KeyValue_VType = v1_ValueType_BINARY,
           KeyValue_VStr = [], KeyValue_VBool = False, KeyValue_VInt64 = 0,
           KeyValue_VFloat64 = 0, KeyValue_VBinary = Tag_VBinary t\<rparr>)
   \<and> (Tag_VType t = jaegerthrift_TagType_STRING
        \<or> Tag_VType t \<notin> {jaegerthrift_TagType_STRING, jaegerthrift_TagType_DOUBLE,
              jaegerthrift_TagType_BOOL, jaegerthrift_TagType_LONG,
              jaegerthrift_TagType_BINARY} \<longrightarrow>
        convertTag t =
          \<lparr>KeyValue_Key = Tag_Key t, KeyValue_VType = v1_ValueType_STRING,
           KeyValue_VStr = (case Tag_VStr t of None \<Rightarrow> [] | Some s \<Rightarrow> s),
           KeyValue_VBool = False, KeyValue_VInt64 = 0, KeyValue_VFloat64 = 0,
           KeyValue_VBinary = None\<rparr>)"
  by (auto simp add: convertTag_def zero_KeyValue_def Let_def TagType_defs
      split: option.split)

text \<open>
  The tags of the repository's tests, a tag of each type with its payload unset, and
  a tag of unknown type.
\<close>

theorem convertTag_table_witness:
  "convertTag tag_string =
     zero_KeyValue\<lparr>KeyValue_Key := ''k'', KeyValue_VType := v1_ValueType_STRING,
       KeyValue_VStr := ''v''\<rparr>
   \<and> convertTag tag_bool =
     zero_KeyValue\<lparr>KeyValue_Key := ''k'', KeyValue_VType := v1_ValueType_BOOL,
       KeyValue_VBool := True\<rparr>
   \<and> convertTag tag_long =
     zero_KeyValue\<lparr>KeyValue_Key := ''k'', KeyValue_VType := v1_ValueType_INT64,
       KeyValue_VInt64 := 42\<rparr>
   \<and> convertTag tag_double =
     zero_KeyValue\<lparr>KeyValue_Key := ''k'', KeyValue_VType := v1_ValueType_FLOAT64,
       KeyValue_VFloat64 := 4614253070214989087\<rparr>
   \<and> convertTag tag_binary =
     zero_KeyValue\<lparr>KeyValue_Key := ''k'', KeyValue_VType := v1_ValueType_BINARY,
       KeyValue_VBinary := Some [1, 2, 3]\<rparr>
   \<and> convertTag (tag_unset jaegerthrift_TagType_STRING) =
     zero_KeyValue\<lparr>KeyValue_Key := ''k'', KeyValue_VType := v1_ValueType_STRING\<rparr>
   \<and> convertTag (tag_unset jaegerthrift_TagType_BOOL) =
     zero_KeyValue\<lparr>KeyValue_Key := ''k'', KeyValue_VType := v1_ValueType_BOOL\<rparr>
   \<and> convertTag (tag_unset jaegerthrift_TagType_LONG) =
     zero_KeyValue\<lparr>KeyValue_Key := ''k'', KeyValue_VType := v1_ValueType_INT64\<rparr>
   \<and> convertTag (tag_unset jaegerthrift_TagType_DOUBLE) =
     zero_KeyValue\<lparr>KeyValue_Key := ''k'', KeyValue_VType := v1_ValueType_FLOAT64\<rparr>
   \<and> convertTag (tag_unset jaegerthrift_TagType_BINARY) =
     zero_KeyValue\<lparr>KeyValue_Key := ''k'', KeyValue_VType := v1_ValueType_BINARY\<rparr>
   \<and> convertTag tag_unknown =
     zero_KeyValue\<lparr>KeyValue_Key := ''k'', KeyValue_VType := v1_ValueType_STRING,
       KeyValue_VStr := ''v''\<rparr>"
  using convertTag_table [of tag_string] convertTag_table [of tag_bool]
    convertTag_table [of tag_long] convertTag_table [of tag_double]
    convertTag_table [of tag_binary]
    convertTag_table [of "tag_unset jaegerthrift_TagType_STRING"]
    convertTag_table [of "tag_unset jaegerthrift_TagType_BOOL"]
    convertTag_table [of "tag_unset jaegerthrift_TagType_LONG"]
    convertTag_table [of "tag_unset jaegerthrift_TagType_DOUBLE"]
    convertTag_table [of "tag_unset jaegerthrift_TagType_BINARY"]
    convertTag_table [of tag_unknown]
  by (simp add: tag_defs TagType_defs zero_KeyValue_def)

text \<open>
  Claim C7. \<^verbatim>\<open>convertTags\<close> returns the images of the tags under \<^verbatim>\<open>convertTag\<close>, in
  the same order and of the same length, except that the nil slice and the allocated
  slice of length 0 both give the nil slice, so that the two inputs cannot be told apart
  in the result. \<^verbatim>\<open>convertLogs\<close> does the same on logs, each log converted by the
  body of its loop.
\<close>

theorem convertTags_convertLogs_lists:
  "convertTags None = None \<and> convertTags (Some []) = None
   \<and> (ts \<noteq> [] \<longrightarrow> convertTags (Some ts) = Some (map convertTag ts))
   \<and> len (convertTags tags) = len tags
   \<and> elems (convertTags tags) = map convertTag (elems tags)
   \<and> convertLogs None = None \<and> convertLogs (Some []) = None
   \<and> (ls \<noteq> [] \<longrightarrow>
        convertLogs (Some ls) =
          Some (map (\<lambda>l. \<lparr>v1_Log_Timestamp =
                             time_Unix 0 (Log_Timestamp l * time_Microsecond),
                           v1_Log_Fields = convertTags (Log_Fields l)\<rparr>) ls))
   \<and> len (convertLogs logs) = len logs"
  by (simp add: convertTags_eq convertLogs_eq len_elems) (simp add: elems_def)

theorem convertTags_convertLogs_lists_witness:
  "convertTags None = None \<and> convertTags (Some []) = None
   \<and> convertTags (Some [tag_string, tag_bool, tag_string]) =
       Some [zero_KeyValue\<lparr>KeyValue_Key := ''k'', KeyValue_VType := v1_ValueType_STRING,
               KeyValue_VStr := ''v''\<rparr>,
             zero_KeyValue\<lparr>KeyValue_Key := ''k'', KeyValue_VType := v1_ValueType_BOOL,
               KeyValue_VBool := True\<rparr>,
             zero_KeyValue\<lparr>KeyValue_Key := ''k'', KeyValue_VType := v1_ValueType_STRING,
               KeyValue_VStr := ''v''\<rparr>]
   \<and> convertLogs None = None \<and> convertLogs (Some []) = None
   \<and> convertLogs (Some
       [\<lparr>Log_Timestamp = 1000, Log_Fields = Some []\<rparr>,
        \<lparr>Log_Timestamp = 2000, Log_Fields = Some [tag_long]\<rparr>]) =
       Some [\<lparr>v1_Log_Timestamp = UnixNano 1000000, v1_Log_Fields = None\<rparr>,
             \<lparr>v1_Log_Timestamp = UnixNano 2000000, v1_Log_Fields = Some
                [zero_KeyValue\<lparr>KeyValue_Key := ''k'', KeyValue_VType := v1_ValueType_INT64,
                   KeyValue_VInt64 := 42\<rparr>]\<rparr>]"
  using
    convertTags_convertLogs_lists [of "[tag_string, tag_bool, tag_string]" None
      "[\<lparr>Log_Timestamp = 1000, Log_Fields = Some []\<rparr>,
        \<lparr>Log_Timestamp = 2000, Log_Fields = Some [tag_long]\<rparr>]" None]
    convertTags_convertLogs_lists [of "[tag_long]" None "[]" None]
  by (simp add: convertTag_def zero_KeyValue_def tag_defs TagType_defs time_Unix_def
      time_Microsecond_def)

subsection \<open>The process\<close>

text \<open>
  Claim C8. \<^verbatim>\<open>convertProcess\<close> never returns nil. For the nil process the result
  has the empty service name and the nil tag slice; for a process \<open>p\<close> it has the
  service name of \<open>p\<close> and the tags \<^verbatim>\<open>convertTags\<close> gives for the tags of \<open>p\<close>.
\<close>

theorem convertProcess_present:
  "convertProcess None = Some \<lparr>v1_Process_ServiceName = [], v1_Process_Tags = None\<rparr>
   \<and> convertProcess (Some p) =
       Some \<lparr>v1_Process_ServiceName = Process_ServiceName p,
             v1_Process_Tags = convertTags (Process_Tags p)\<rparr>
   \<and> convertProcess q \<noteq> None"
  by (simp add: convertProcess_def zero_Process_def split: option.split)

text \<open>
  The nil process, the process of \<^verbatim>\<open>TestConvertProcess_WithTagsAndServiceName\<close> and
  a process whose tag slice is allocated and empty.
\<close>

theorem convertProcess_present_witness:
  "convertProcess None = Some \<lparr>v1_Process_ServiceName = [], v1_Process_Tags = None\<rparr>
   \<and> convertProcess
       (Some \<lparr>Process_ServiceName = ''my-service'',
              Process_Tags = Some
                [zero_Tag\<lparr>Tag_Key := ''hostname'', Tag_VType := jaegerthrift_TagType_STRING,
                   Tag_VStr := Some ''host1''\<rparr>]\<rparr>) =
       Some \<lparr>v1_Process_ServiceName = ''my-service'',
             v1_Process_Tags = Some
               [zero_KeyValue\<lparr>KeyValue_Key := ''hostname'',
                  KeyValue_VType := v1_ValueType_STRING, KeyValue_VStr := ''host1''\<rparr>]\<rparr>
   \<and> convertProcess (Some \<lparr>Process_ServiceName = ''svc'', Process_Tags = Some []\<rparr>) =
       Some \<lparr>v1_Process_ServiceName = ''svc'', v1_Process_Tags = None\<rparr>"
  using
    convertProcess_present
      [of "\<lparr>Process_ServiceName = ''my-service'',
            Process_Tags = Some
              [zero_Tag\<lparr>Tag_Key := ''hostname'', Tag_VType := jaegerthrift_TagType_STRING,
                 Tag_VStr := Some ''host1''\<rparr>]\<rparr>"]
    convertProcess_present [of "\<lparr>Process_ServiceName = ''svc'', Process_Tags = Some []\<rparr>"]
  by (simp add: convertTags_eq elems_def convertTag_def zero_KeyValue_def tag_defs
      TagType_defs)

subsection \<open>Identifiers\<close>

text \<open>The conversion to \<^verbatim>\<open>uint64\<close> keeps the word.\<close>

lemma uint64_of_int64_id: "uint64_of_int64 x = x"
  by (simp add: uint64_of_int64_def)

lemma uint_of_sint64:
  "uint (x :: 64 word) = (if sint x < 0 then sint x + 2 ^ 64 else sint x)"
proof -
  have m: "uint x = sint x mod 2 ^ 64"
    by (simp add: uint_sint take_bit_eq_mod)
  have lo: "- (2 ^ 63) \<le> sint x" using sint_ge [of x] by simp
  have hi: "sint x < 2 ^ 63" using sint_lt [of x] by simp
  show ?thesis
  proof (cases "sint x < 0")
    case True
    have "sint x mod 2 ^ 64 = (sint x + 2 ^ 64) mod 2 ^ 64"
      by simp
    also have "\<dots> = sint x + 2 ^ 64"
      using True lo by (intro mod_pos_pos_trivial) simp_all
    finally have "sint x mod 2 ^ 64 = sint x + 2 ^ 64" .
    with True m show ?thesis by simp
  next
    case False
    then have "sint x mod 2 ^ 64 = sint x" using hi by simp
    with False m show ?thesis by simp
  qed
qed

lemma reinterpreted_uint64_of_int64: "reinterpreted x (uint64_of_int64 x)"
  unfolding reinterpreted_def uint64_of_int64_id using uint_of_sint64 [of x] by simp

text \<open>
  Claim C9. For every legacy span and every legacy reference, the two halves of the
  trace id and the span id of the result are the reinterpretation of the legacy fields
  as unsigned: bit for bit the same, so that a negative legacy value \<open>v\<close> reads as
  \<open>v + 2\<^sup>6\<^sup>4\<close> in the result and the sign is not kept.
\<close>

theorem ids_reinterpreted:
  "(\<exists>c. convertSpan s = Some c
      \<and> reinterpreted (Span_TraceIdHigh s) (TraceID_High (v1_Span_TraceID c))
      \<and> reinterpreted (Span_TraceIdLow s) (TraceID_Low (v1_Span_TraceID c))
      \<and> reinterpreted (Span_SpanId s) (v1_Span_SpanID c))
   \<and> reinterpreted (SpanRef_TraceIdHigh r) (TraceID_High (v1_SpanRef_TraceID (convertSpanRef r)))
   \<and> reinterpreted (SpanRef_TraceIdLow r) (TraceID_Low (v1_SpanRef_TraceID (convertSpanRef r)))
   \<and> reinterpreted (SpanRef_SpanId r) (v1_SpanRef_SpanID (convertSpanRef r))"
  by (simp add: convertSpan_def convertSpanRef_def Let_def reinterpreted_uint64_of_int64)

theorem ids_reinterpreted_witness:
  "map_option (uint \<circ> TraceID_High \<circ> v1_Span_TraceID) (convertSpan span_negative_ids)
     = Some 18446744073709551615
   \<and> map_option (uint \<circ> TraceID_Low \<circ> v1_Span_TraceID) (convertSpan span_negative_ids)
     = Some 9223372036854775808
   \<and> map_option (uint \<circ> v1_Span_SpanID) (convertSpan span_negative_ids)
     = Some 18446744073709551614
   \<and> uint (TraceID_High (v1_SpanRef_TraceID (convertSpanRef ref_negative_ids)))
     = 18446744073709551615
   \<and> uint (TraceID_Low (v1_SpanRef_TraceID (convertSpanRef ref_negative_ids))) = 1
   \<and> uint (v1_SpanRef_SpanID (convertSpanRef ref_negative_ids)) = 18446744073709551613"
  using ids_reinterpreted [of span_negative_ids ref_negative_ids]
  by (auto simp add: reinterpreted_def span_defs ref_negative_ids_def)

subsection \<open>Times\<close>

text \<open>
  The product of a count of microseconds and \<^verbatim>\<open>time.Microsecond\<close> is an
  \<^verbatim>\<open>int64\<close> product: it is the thousandfold of the count exactly when that fits.
\<close>

lemma sint_times_1000:
  "sint ((v :: 64 word) * 1000) = sint v * 1000
     \<longleftrightarrow> - 9223372036854775 \<le> sint v \<and> sint v \<le> 9223372036854775"
proof -
  have "sint (v * 1000) = signed_take_bit 63 (sint v * 1000)"
    by (simp add: sint_word_ariths)
  then have "sint (v * 1000) = sint v * 1000
      \<longleftrightarrow> - (2 ^ 63) \<le> sint v * 1000 \<and> sint v * 1000 < 2 ^ 63"
    by (simp add: signed_take_bit_int_eq_self_iff)
  also have "\<dots> \<longleftrightarrow> - 9223372036854775 \<le> sint v \<and> sint v \<le> 9223372036854775"
    by simp arith
  finally show ?thesis .
qed

lemma elems_convertLogs:
  "elems (convertLogs logs) =
     map (\<lambda>l. \<lparr>v1_Log_Timestamp = time_Unix 0 (Log_Timestamp l * time_Microsecond),
                v1_Log_Fields = convertTags (Log_Fields l)\<rparr>) (elems logs)"
  by (simp add: convertLogs_eq) (simp add: elems_def)

lemma nanos_time_Unix_micros:
  "nanos (time_Unix 0 (v * time_Microsecond)) = sint (v * 1000)"
  by (simp add: time_Unix_def time_Microsecond_def)

text \<open>
  Claim C6 says that every legacy time of \<open>v\<close> microseconds becomes \<open>v * 1000\<close>
  nanoseconds. The source multiplies in \<^verbatim>\<open>int64\<close>, and the product wraps around:
  for the span whose start time, duration and log timestamp are \<open>9223372036854776\<close>
  microseconds, the thousandfold is \<open>9223372036854776000\<close>, and the converted start
  time, duration and log timestamp are \<open>- 9223372036854775616\<close> nanoseconds.
\<close>

theorem micros_to_nanos_counterexample:
  "map_option (nanos \<circ> v1_Span_StartTime) (convertSpan span_late)
      = Some (- 9223372036854775616)
   \<and> sint (Span_StartTime span_late) * 1000 = 9223372036854776000
   \<and> map_option (sint \<circ> v1_Span_Duration) (convertSpan span_late)
      = Some (- 9223372036854775616)
   \<and> sint (Span_Duration span_late) * 1000 = 9223372036854776000
   \<and> map_option (map (nanos \<circ> v1_Log_Timestamp) \<circ> elems \<circ> v1_Span_Logs)
       (convertSpan span_late) = Some [- 9223372036854775616]"
  by (simp add: convertSpan_def Let_def span_defs time_Unix_def time_Microsecond_def
      convertLogs_eq elems_def)

text \<open>
  Claim C6, amended. The start time of a span and the timestamp of each of its logs
  become the instant that many nanoseconds after the Unix epoch, and the duration the
  count of nanoseconds, that the \<^verbatim>\<open>int64\<close> product of the legacy value \<open>v\<close> and
  1000 gives. That is \<open>v * 1000\<close> if and only if \<open>v\<close> lies between
  \<open>- 9223372036854775\<close> and \<open>9223372036854775\<close> microseconds; outside this range
  the product has wrapped around.
\<close>

theorem micros_to_nanos:
  "\<exists>c. convertSpan s = Some c
     \<and> nanos (v1_Span_StartTime c) = sint (Span_StartTime s * 1000)
     \<and> (nanos (v1_Span_StartTime c) = sint (Span_StartTime s) * 1000
          \<longleftrightarrow> nanos_fit (Span_StartTime s))
     \<and> v1_Span_Duration c = Span_Duration s * 1000
     \<and> (sint (v1_Span_Duration c) = sint (Span_Duration s) * 1000
          \<longleftrightarrow> nanos_fit (Span_Duration s))
     \<and> length (elems (v1_Span_Logs c)) = length (elems (Span_Logs s))
     \<and> (\<forall>i < length (elems (Span_Logs s)).
          nanos (v1_Log_Timestamp (elems (v1_Span_Logs c) ! i))
            = sint (Log_Timestamp (elems (Span_Logs s) ! i) * 1000)
          \<and> (nanos (v1_Log_Timestamp (elems (v1_Span_Logs c) ! i))
               = sint (Log_Timestamp (elems (Span_Logs s) ! i)) * 1000
             \<longleftrightarrow> nanos_fit (Log_Timestamp (elems (Span_Logs s) ! i))))"
  by (simp add: convertSpan_def Let_def elems_convertLogs nanos_time_Unix_micros
      sint_times_1000 nanos_fit_def)
    (simp add: time_Microsecond_def sint_times_1000)

theorem micros_to_nanos_witness:
  "map_option (nanos \<circ> v1_Span_StartTime) (convertSpan span_basic) = Some 1000000000
   \<and> map_option (sint \<circ> v1_Span_Duration) (convertSpan span_basic) = Some 500000000
   \<and> map_option (map (nanos \<circ> v1_Log_Timestamp) \<circ> elems \<circ> v1_Span_Logs)
       (convertSpan span_basic) = Some [1000000]"
proof -
  obtain c where c: "convertSpan span_basic = Some c"
    and st: "nanos (v1_Span_StartTime c) = sint (Span_StartTime span_basic) * 1000
          \<longleftrightarrow> nanos_fit (Span_StartTime span_basic)"
    and du: "sint (v1_Span_Duration c) = sint (Span_Duration span_basic) * 1000
          \<longleftrightarrow> nanos_fit (Span_Duration span_basic)"
    and n: "length (elems (v1_Span_Logs c)) = length (elems (Span_Logs span_basic))"
    and lg: "\<forall>i < length (elems (Span_Logs span_basic)).
          nanos (v1_Log_Timestamp (elems (v1_Span_Logs c) ! i))
            = sint (Log_Timestamp (elems (Span_Logs span_basic) ! i) * 1000)
          \<and> (nanos (v1_Log_Timestamp (elems (v1_Span_Logs c) ! i))
               = sint (Log_Timestamp (elems (Span_Logs span_basic) ! i)) * 1000
             \<longleftrightarrow> nanos_fit (Log_Timestamp (elems (Span_Logs span_basic) ! i)))"
    using micros_to_nanos [of span_basic] by blast
  have "nanos (v1_Span_StartTime c) = 1000000000"
    using st by (simp add: span_defs nanos_fit_def)
  moreover have "sint (v1_Span_Duration c) = 500000000"
    using du by (simp add: span_defs nanos_fit_def)
  moreover have "map (nanos \<circ> v1_Log_Timestamp) (elems (v1_Span_Logs c)) = [1000000]"
    using n lg by (simp add: span_defs nanos_fit_def elems_def length_Suc_conv) auto
  ultimately show ?thesis using c by simp
qed

subsection \<open>The references of a span\<close>

text \<open>The two loops of \<^verbatim>\<open>convertSpan\<close> over the references.\<close>

lemma convertSpan_refs_eq:
  "convertSpan_refs refs rs =
     (if rs = [] then refs else Some (elems refs @ map convertSpanRef rs))"
  by (induction rs arbitrary: refs) (simp_all add: append_slice_def elems_def)

lemma alreadyPresent_iff:
  "alreadyPresent parent refs \<longleftrightarrow>
     (\<exists>r \<in> set refs. v1_SpanRef_RefType r = v1_SpanRefType_CHILD_OF
        \<and> v1_SpanRef_SpanID r = parent)"
  by (induction refs) auto

text \<open>
  Claim C1. For every legacy span with a parent span id other than 0 whose converted
  explicit references contain one of type \<^verbatim>\<open>CHILD_OF\<close> with the parent's span id,
  the references of the converted span are the converted explicit references, with
  nothing appended. Nothing is assumed of the trace id of that reference: the match is
  on the span id and the type only.
\<close>

theorem parent_suppressed:
  assumes "Span_ParentSpanId s \<noteq> 0"
    and "r \<in> set (map convertSpanRef (elems (Span_References s)))"
    and "v1_SpanRef_RefType r = v1_SpanRefType_CHILD_OF"
    and "v1_SpanRef_SpanID r = uint64_of_int64 (Span_ParentSpanId s)"
  shows "\<exists>c. convertSpan s = Some c
    \<and> v1_Span_References c = Some (map convertSpanRef (elems (Span_References s)))
    \<and> len (v1_Span_References c) = len (Span_References s)"
proof -
  let ?rs = "elems (Span_References s)"
  have ne: "?rs \<noteq> []" using assms(2) by auto
  then have refs: "convertSpan_refs None ?rs = Some (map convertSpanRef ?rs)"
    by (simp add: convertSpan_refs_eq elems_def)
  have "alreadyPresent (uint64_of_int64 (Span_ParentSpanId s)) (map convertSpanRef ?rs)"
    unfolding alreadyPresent_iff using assms(2-4) by blast
  then show ?thesis
    using assms(1) refs by (simp add: convertSpan_def Let_def elems_def len_def split: option.split)
qed

text \<open>
  The span of the test, and the same span with its reference pointing into another
  trace (trace id 7:153 instead of 0:1): no reference of the span's own trace is added.
\<close>

theorem parent_suppressed_witness:
  "map_option v1_Span_References (convertSpan span_parent_in_other_trace)
     = Some (Some [\<lparr>v1_SpanRef_TraceID = \<lparr>TraceID_Low = 153, TraceID_High = 7\<rparr>,
                    v1_SpanRef_SpanID = 2, v1_SpanRef_RefType = v1_SpanRefType_CHILD_OF\<rparr>])
   \<and> map_option v1_Span_TraceID (convertSpan span_parent_in_other_trace)
     = Some \<lparr>TraceID_Low = 1, TraceID_High = 0\<rparr>
   \<and> map_option v1_Span_References (convertSpan span_parent_in_refs)
     = Some (Some [\<lparr>v1_SpanRef_TraceID = \<lparr>TraceID_Low = 1, TraceID_High = 0\<rparr>,
                    v1_SpanRef_SpanID = 2, v1_SpanRef_RefType = v1_SpanRefType_CHILD_OF\<rparr>])"
proof -
  have a: "\<exists>c. convertSpan span_parent_in_other_trace = Some c
    \<and> v1_Span_References c =
        Some (map convertSpanRef (elems (Span_References span_parent_in_other_trace)))
    \<and> len (v1_Span_References c) = len (Span_References span_parent_in_other_trace)"
    by (rule parent_suppressed
          [where r = "\<lparr>v1_SpanRef_TraceID = \<lparr>TraceID_Low = 153, TraceID_High = 7\<rparr>,
                    v1_SpanRef_SpanID = 2, v1_SpanRef_RefType = v1_SpanRefType_CHILD_OF\<rparr>"])
      (simp_all add: span_defs elems_def convertSpanRef_def uint64_of_int64_def
        SpanRefType_defs)
  have b: "\<exists>c. convertSpan span_parent_in_refs = Some c
    \<and> v1_Span_References c =
        Some (map convertSpanRef (elems (Span_References span_parent_in_refs)))
    \<and> len (v1_Span_References c) = len (Span_References span_parent_in_refs)"
    by (rule parent_suppressed
          [where r = "\<lparr>v1_SpanRef_TraceID = \<lparr>TraceID_Low = 1, TraceID_High = 0\<rparr>,
                    v1_SpanRef_SpanID = 2, v1_SpanRef_RefType = v1_SpanRefType_CHILD_OF\<rparr>"])
      (simp_all add: span_defs elems_def convertSpanRef_def uint64_of_int64_def
        SpanRefType_defs)
  have t: "map_option v1_Span_TraceID (convertSpan span_parent_in_other_trace)
     = Some \<lparr>TraceID_Low = 1, TraceID_High = 0\<rparr>"
    by (simp add: convertSpan_def Let_def span_defs uint64_of_int64_def)
  from a b t show ?thesis
    by (auto simp add: span_defs elems_def convertSpanRef_def uint64_of_int64_def
        SpanRefType_defs)
qed

text \<open>
  Claim C2. For every legacy span: when the parent span id is 0, the references of
  the converted span are the converted explicit references, in order, and nothing else
  (the nil slice when there is none); when the parent span id is not 0 and no converted
  explicit reference has type \<^verbatim>\<open>CHILD_OF\<close> and the parent's span id, they are the
  converted explicit references followed by one more reference, of type
  \<^verbatim>\<open>CHILD_OF\<close>, with the parent's span id and the trace id of the span itself.
\<close>

theorem references_of_span:
  "\<exists>c. convertSpan s = Some c
     \<and> (Span_ParentSpanId s = 0 \<longrightarrow>
          v1_Span_References c =
            (if elems (Span_References s) = [] then None
             else Some (map convertSpanRef (elems (Span_References s))))
          \<and> elems (v1_Span_References c) = map convertSpanRef (elems (Span_References s)))
     \<and> (Span_ParentSpanId s \<noteq> 0
          \<and> \<not> (\<exists>r \<in> set (map convertSpanRef (elems (Span_References s))).
                 v1_SpanRef_RefType r = v1_SpanRefType_CHILD_OF
                 \<and> v1_SpanRef_SpanID r = uint64_of_int64 (Span_ParentSpanId s)) \<longrightarrow>
          v1_Span_References c =
            Some (map convertSpanRef (elems (Span_References s))
                  @ [\<lparr>v1_SpanRef_TraceID = v1_Span_TraceID c,
                      v1_SpanRef_SpanID = uint64_of_int64 (Span_ParentSpanId s),
                      v1_SpanRef_RefType = v1_SpanRefType_CHILD_OF\<rparr>])
          \<and> v1_Span_TraceID c =
              \<lparr>TraceID_Low = uint64_of_int64 (Span_TraceIdLow s),
               TraceID_High = uint64_of_int64 (Span_TraceIdHigh s)\<rparr>)"
proof -
  let ?rs = "elems (Span_References s)"
  have refs: "elems (convertSpan_refs None ?rs) = map convertSpanRef ?rs"
    by (simp add: convertSpan_refs_eq) (simp add: elems_def)
  show ?thesis
    by (simp add: convertSpan_def Let_def refs alreadyPresent_iff append_slice_def)
      (auto simp add: convertSpan_refs_eq elems_def)
qed

theorem references_of_span_witness:
  "map_option v1_Span_References (convertSpan zero_Span) = Some None
   \<and> map_option v1_Span_References (convertSpan span_two_refs)
     = Some (Some [\<lparr>v1_SpanRef_TraceID = \<lparr>TraceID_Low = 1, TraceID_High = 0\<rparr>,
                    v1_SpanRef_SpanID = 2, v1_SpanRef_RefType = v1_SpanRefType_CHILD_OF\<rparr>,
                   \<lparr>v1_SpanRef_TraceID = \<lparr>TraceID_Low = 16, TraceID_High = 0\<rparr>,
                    v1_SpanRef_SpanID = 32,
                    v1_SpanRef_RefType = v1_SpanRefType_FOLLOWS_FROM\<rparr>])
   \<and> map_option v1_Span_References (convertSpan span_parent_only)
     = Some (Some [\<lparr>v1_SpanRef_TraceID = \<lparr>TraceID_Low = 1, TraceID_High = 0\<rparr>,
                    v1_SpanRef_SpanID = 1, v1_SpanRef_RefType = v1_SpanRefType_CHILD_OF\<rparr>])
   \<and> map_option v1_Span_References (convertSpan span_follows_parent)
     = Some (Some [\<lparr>v1_SpanRef_TraceID = \<lparr>TraceID_Low = 1, TraceID_High = 0\<rparr>,
                    v1_SpanRef_SpanID = 2,
                    v1_SpanRef_RefType = v1_SpanRefType_FOLLOWS_FROM\<rparr>,
                   \<lparr>v1_SpanRef_TraceID = \<lparr>TraceID_Low = 1, TraceID_High = 0\<rparr>,
                    v1_SpanRef_SpanID = 2, v1_SpanRef_RefType = v1_SpanRefType_CHILD_OF\<rparr>])"
  using references_of_span [of zero_Span] references_of_span [of span_two_refs]
    references_of_span [of span_parent_only] references_of_span [of span_follows_parent]
  by (auto simp add: span_defs elems_def convertSpanRef_def uint64_of_int64_def
      SpanRefType_defs)

subsection \<open>The handler\<close>

text \<open>Building the request from a decoded batch never panics.\<close>

lemma HandleTraces_spans_Some:
  "\<exists>spans'. HandleTraces_spans proc spans ss = Some spans'"
  by (induction ss arbitrary: spans) (simp_all add: convertSpan_def Let_def)

lemma HandleTraces_request_Some: "\<exists>req. HandleTraces_request batch = Some req"
proof -
  obtain spans where
    "HandleTraces_spans (convertProcess (Batch_Process batch)) (Some [])
       (elems (Batch_Spans batch)) = Some spans"
    using HandleTraces_spans_Some by blast
  then show ?thesis by (simp add: HandleTraces_request_def Let_def)
qed

lemmas http_defs =
  http_MethodPost_def http_StatusAccepted_def http_StatusBadRequest_def
  http_StatusMethodNotAllowed_def http_StatusInternalServerError_def

text \<open>
  Claim C10. For every request, \<^verbatim>\<open>HandleTraces\<close> calls \<^verbatim>\<open>WriteHeader\<close> exactly
  once. The status is 202 if and only if the method is \<^verbatim>\<open>POST\<close>, the body is read
  without error and is not empty, the decoder returns a batch, and \<^verbatim>\<open>PostSpans\<close>,
  called with the request built from that batch, returns no error. Otherwise it is 405
  when the method is not \<^verbatim>\<open>POST\<close>; 400 when the method is \<^verbatim>\<open>POST\<close> and reading
  the body fails, the body is empty or the decoder fails; and 500 when
  \<^verbatim>\<open>PostSpans\<close> returns an error.
\<close>

theorem HandleTraces_status:
  "\<exists>code. HandleTraces client batch_Read w r = Some (w\<lparr>statuses := statuses w @ [code]\<rparr>)
    \<and> (code = http_StatusAccepted \<longleftrightarrow>
         Request_Method r = http_MethodPost \<and> snd (Request_Body_ReadAll r) = None
         \<and> fst (Request_Body_ReadAll r) \<noteq> []
         \<and> (\<exists>batch req. batch_Read (fst (Request_Body_ReadAll r)) = Inr batch
              \<and> HandleTraces_request batch = Some req \<and> client req = None))
    \<and> (Request_Method r \<noteq> http_MethodPost \<longrightarrow> code = http_StatusMethodNotAllowed)
    \<and> (Request_Method r = http_MethodPost
         \<and> (snd (Request_Body_ReadAll r) \<noteq> None \<or> fst (Request_Body_ReadAll r) = []
              \<or> (\<exists>e. batch_Read (fst (Request_Body_ReadAll r)) = Inl e))
         \<longrightarrow> code = http_StatusBadRequest)
    \<and> (Request_Method r = http_MethodPost \<and> snd (Request_Body_ReadAll r) = None
         \<and> fst (Request_Body_ReadAll r) \<noteq> []
         \<and> (\<exists>batch req e. batch_Read (fst (Request_Body_ReadAll r)) = Inr batch
              \<and> HandleTraces_request batch = Some req \<and> client req = Some e)
         \<longrightarrow> code = http_StatusInternalServerError)"
proof (cases "Request_Method r = http_MethodPost")
  case False
  then show ?thesis
    by (simp add: HandleTraces_def WriteHeader_def)
      (simp add: http_defs)
next
  case post: True
  obtain d e where ra: "Request_Body_ReadAll r = (d, e)" by (cases "Request_Body_ReadAll r")
  show ?thesis
  proof (cases "e = None \<and> d \<noteq> []")
    case False
    then show ?thesis using post ra
      by (auto simp add: HandleTraces_def WriteHeader_def
          http_StatusAccepted_def http_StatusBadRequest_def split: option.split)
  next
    case ok: True
    show ?thesis
    proof (cases "batch_Read d")
      case (Inl err)
      then show ?thesis using post ra ok
        by (simp add: HandleTraces_def WriteHeader_def
            TMemoryBuffer_Write_def http_StatusAccepted_def http_StatusBadRequest_def)
    next
      case (Inr batch)
      obtain req where req: "HandleTraces_request batch = Some req"
        using HandleTraces_request_Some by blast
      show ?thesis
      proof (cases "client req")
        case None
        then show ?thesis using post ra ok Inr req
          by (simp add: HandleTraces_def WriteHeader_def
              TMemoryBuffer_Write_def)
      next
        case (Some err)
        then show ?thesis using post ra ok Inr req
          by (simp add: HandleTraces_def WriteHeader_def
              TMemoryBuffer_Write_def http_StatusAccepted_def
              http_StatusInternalServerError_def)
      qed
    qed
  qed
qed

theorem HandleTraces_status_witness:
  "map_option statuses
     (HandleTraces (\<lambda>req. None) (\<lambda>d. Inr batch_example) \<lparr>statuses = []\<rparr>
        \<lparr>Request_Method = ''POST'', Request_Body_ReadAll = ([130, 129], None),
         Request_Body_Close = None\<rparr>) = Some [202]
   \<and> map_option statuses
     (HandleTraces (\<lambda>req. None) (\<lambda>d. Inr batch_example) \<lparr>statuses = []\<rparr>
        \<lparr>Request_Method = ''GET'', Request_Body_ReadAll = ([130, 129], None),
         Request_Body_Close = None\<rparr>) = Some [405]
   \<and> map_option statuses
     (HandleTraces (\<lambda>req. None) (\<lambda>d. Inr batch_example) \<lparr>statuses = []\<rparr>
        \<lparr>Request_Method = ''POST'',
         Request_Body_ReadAll = ([130], Some (Error ''unexpected EOF'')),
         Request_Body_Close = None\<rparr>) = Some [400]
   \<and> map_option statuses
     (HandleTraces (\<lambda>req. None) (\<lambda>d. Inr batch_example) \<lparr>statuses = []\<rparr>
        \<lparr>Request_Method = ''POST'', Request_Body_ReadAll = ([], None),
         Request_Body_Close = None\<rparr>) = Some [400]
   \<and> map_option statuses
     (HandleTraces (\<lambda>req. None) (\<lambda>d. Inl (Error ''bad version'')) \<lparr>statuses = []\<rparr>
        \<lparr>Request_Method = ''POST'', Request_Body_ReadAll = ([130, 129], None),
         Request_Body_Close = None\<rparr>) = Some [400]
   \<and> map_option statuses
     (HandleTraces (\<lambda>req. Some (Error ''unavailable'')) (\<lambda>d. Inr batch_example)
        \<lparr>statuses = []\<rparr>
        \<lparr>Request_Method = ''POST'', Request_Body_ReadAll = ([130, 129], None),
         Request_Body_Close = None\<rparr>) = Some [500]"
  using
    HandleTraces_status [of "\<lambda>req. None" "\<lambda>d. Inr batch_example" "\<lparr>statuses = []\<rparr>"
      "\<lparr>Request_Method = ''POST'', Request_Body_ReadAll = ([130, 129], None),
         Request_Body_Close = None\<rparr>"]
    HandleTraces_status [of "\<lambda>req. None" "\<lambda>d. Inr batch_example" "\<lparr>statuses = []\<rparr>"
      "\<lparr>Request_Method = ''GET'', Request_Body_ReadAll = ([130, 129], None),
         Request_Body_Close = None\<rparr>"]
    HandleTraces_status [of "\<lambda>req. None" "\<lambda>d. Inr batch_example" "\<lparr>statuses = []\<rparr>"
      "\<lparr>Request_Method = ''POST'',
         Request_Body_ReadAll = ([130], Some (Error ''unexpected EOF'')),
         Request_Body_Close = None\<rparr>"]
    HandleTraces_status [of "\<lambda>req. None" "\<lambda>d. Inr batch_example" "\<lparr>statuses = []\<rparr>"
      "\<lparr>Request_Method = ''POST'', Request_Body_ReadAll = ([], None),
         Request_Body_Close = None\<rparr>"]
    HandleTraces_status [of "\<lambda>req. None" "\<lambda>d. Inl (Error ''bad version'')"
      "\<lparr>statuses = []\<rparr>"
      "\<lparr>Request_Method = ''POST'', Request_Body_ReadAll = ([130, 129], None),
         Request_Body_Close = None\<rparr>"]
    HandleTraces_status [of "\<lambda>req. Some (Error ''unavailable'')" "\<lambda>d. Inr batch_example"
      "\<lparr>statuses = []\<rparr>"
      "\<lparr>Request_Method = ''POST'', Request_Body_ReadAll = ([130, 129], None),
         Request_Body_Close = None\<rparr>"]
  by (auto simp add: http_defs HandleTraces_request_Some)

end
